theory Spec2Isabelle
  imports Main
begin

section \<open>Python values, errors and the field operations\<close>

text \<open>
  The module works on untyped Python values. A field element of the base field is an
  integer, an element of an extension field is a tuple of elements of the level below,
  and the coordinates of \<^verbatim>\<open>EllipticCurve.INF\<close> are the float \<^verbatim>\<open>float("inf")\<close>.
  Equality of these values (\<^verbatim>\<open>==\<close>) is structural.
\<close>

datatype pyval = PyInt int | PyInf | PyTuple "pyval list"

text \<open>
  The exceptions of the module: \<^verbatim>\<open>errors.UnknownError\<close> (raised with the fixed message
  "y1 and y2 is neither equal nor opposite."), \<^verbatim>\<open>NotImplementedError\<close> (its message
  shows the rejected \<^verbatim>\<open>beta\<close>), and the two errors of subscripting a value.
\<close>

datatype error = UnknownError | NotImplementedError pyval | TypeError | IndexError

text \<open>\<^verbatim>\<open>v[i]\<close> for a constant index: a float or an integer is not subscriptable.\<close>

fun py_index :: "pyval \<Rightarrow> nat \<Rightarrow> error + pyval" where
  "py_index (PyTuple xs) i = (if i < length xs then Inr (xs ! i) else Inl IndexError)"
| "py_index (PyInt k) i = Inl TypeError"
| "py_index PyInf i = Inl TypeError"

text \<open>
  The field arithmetic lives in the module \<^verbatim>\<open>primefield\<close>, which \<^verbatim>\<open>ellipticcurve\<close> imports
  and whose code is not modelled here. A field object is therefore a table of the
  operations \<^verbatim>\<open>ellipticcurve\<close> calls on it, each taken as a function that returns a value;
  every statement below holds for any such table unless it names one.
\<close>

record PrimeFieldBase =
  f_zero :: pyval
  f_one :: pyval
  f_extend :: "pyval \<Rightarrow> pyval"
  f_isoppo :: "pyval \<Rightarrow> pyval \<Rightarrow> bool"
  f_neg :: "pyval \<Rightarrow> pyval"
  f_add :: "pyval \<Rightarrow> pyval \<Rightarrow> pyval"
  f_sub :: "pyval \<Rightarrow> pyval \<Rightarrow> pyval"
  f_mul :: "pyval \<Rightarrow> pyval \<Rightarrow> pyval"
  f_smul :: "int \<Rightarrow> pyval \<Rightarrow> pyval"
  f_inv :: "pyval \<Rightarrow> pyval"
  f_pow :: "pyval \<Rightarrow> int \<Rightarrow> pyval"
  f_frob :: "pyval \<Rightarrow> pyval"

section \<open>EllipticCurve\<close>

type_synonym EcPoint = "pyval \<times> pyval"

text \<open>\<^verbatim>\<open>INF: EcPoint = (float("inf"), float("inf"))\<close>\<close>

definition EC_INF :: EcPoint where
  "EC_INF = (PyInf, PyInf)"

record EllipticCurve =
  ec_a :: pyval
  ec_b :: pyval
  ec_fp :: PrimeFieldBase

definition EllipticCurve_init :: "PrimeFieldBase \<Rightarrow> pyval \<Rightarrow> pyval \<Rightarrow> EllipticCurve" where
  "EllipticCurve_init fp a b = \<lparr>ec_a = a, ec_b = b, ec_fp = fp\<rparr>"

definition get_y_sqr :: "EllipticCurve \<Rightarrow> pyval \<Rightarrow> pyval" where
  "get_y_sqr ec x =
     (let fp = ec_fp ec
      in f_add fp (f_pow fp x 3) (f_add fp (f_mul fp (ec_a ec) x) (ec_b ec)))"

definition isvalid :: "EllipticCurve \<Rightarrow> EcPoint \<Rightarrow> bool" where
  "isvalid ec P = (case P of (x, y) \<Rightarrow> f_mul (ec_fp ec) y y = get_y_sqr ec x)"

definition ec_neg :: "EllipticCurve \<Rightarrow> EcPoint \<Rightarrow> EcPoint" where
  "ec_neg ec P = (case P of (x, y) \<Rightarrow> (x, f_neg (ec_fp ec) y))"

text \<open>The last three lines of \<^verbatim>\<open>add\<close>, reached from the doubling and the chord branch.\<close>

definition add_from_slope :: "PrimeFieldBase \<Rightarrow> pyval \<Rightarrow> pyval \<Rightarrow> pyval \<Rightarrow> pyval \<Rightarrow> EcPoint" where
  "add_from_slope fp lam x1 y1 x2 =
     (let x3 = f_sub fp (f_mul fp lam lam) (f_add fp x1 x2);
          y3 = f_sub fp (f_mul fp lam (f_sub fp x1 x3)) y1
      in (x3, y3))"

definition ec_add :: "EllipticCurve \<Rightarrow> EcPoint \<Rightarrow> EcPoint \<Rightarrow> error + EcPoint" where
  "ec_add ec P1 P2 =
     (let fp = ec_fp ec in
      if P1 = EC_INF then Inr P2
      else if P2 = EC_INF then Inr P1
      else
        (case P1 of (x1, y1) \<Rightarrow>
         case P2 of (x2, y2) \<Rightarrow>
           if x1 = x2 then
             (if f_isoppo fp y1 y2 then Inr EC_INF
              else if y1 = y2 then
                (let t1 = f_add fp (ec_a ec) (f_smul fp 3 (f_mul fp x1 x1));
                     t2 = f_inv fp (f_smul fp 2 y1);
                     lam = f_mul fp t1 t2
                 in Inr (add_from_slope fp lam x1 y1 x2))
              else Inl UnknownError)
           else
             (let lam = f_mul fp (f_sub fp y2 y1) (f_inv fp (f_sub fp x2 x1))
              in Inr (add_from_slope fp lam x1 y1 x2))))"

definition ec_sub :: "EllipticCurve \<Rightarrow> EcPoint \<Rightarrow> EcPoint \<Rightarrow> error + EcPoint" where
  "ec_sub ec P1 P2 = ec_add ec P1 (ec_neg ec P2)"

text \<open>
  \<^verbatim>\<open>f"{k:b}"\<close>: the binary digits of \<open>k\<close>, most significant first, after a minus sign
  when \<open>k\<close> is negative.
\<close>

fun bin_digits :: "nat \<Rightarrow> string" where
  "bin_digits n =
     (if n < 2 then [if n = 0 then CHR ''0'' else CHR ''1'']
      else bin_digits (n div 2) @ [if n mod 2 = 0 then CHR ''0'' else CHR ''1''])"

declare bin_digits.simps [simp del]

definition format_b :: "int \<Rightarrow> string" where
  "format_b k = (if k < 0 then CHR ''-'' # bin_digits (nat (- k)) else bin_digits (nat k))"

text \<open>The loop of \<^verbatim>\<open>mul\<close> over the characters that are left; an error of \<^verbatim>\<open>add\<close> ends it.\<close>

fun mul_loop :: "EllipticCurve \<Rightarrow> EcPoint \<Rightarrow> EcPoint \<Rightarrow> string \<Rightarrow> error + EcPoint" where
  "mul_loop ec P Q [] = Inr Q"
| "mul_loop ec P Q (i # rest) =
     (case ec_add ec Q Q of
        Inl err \<Rightarrow> Inl err
      | Inr Q2 \<Rightarrow>
          if i = CHR ''1'' then
            (case ec_add ec Q2 P of
               Inl err \<Rightarrow> Inl err
             | Inr Q3 \<Rightarrow> mul_loop ec P Q3 rest)
          else mul_loop ec P Q2 rest)"

definition ec_mul :: "EllipticCurve \<Rightarrow> int \<Rightarrow> EcPoint \<Rightarrow> error + EcPoint" where
  "ec_mul ec k P = mul_loop ec P P (drop 1 (format_b k))"

section \<open>BNBIDH\<close>

text \<open>
  The objects the constructor gets from \<^verbatim>\<open>primefield\<close>: \<^verbatim>\<open>Fp.PrimeField12(p)\<close> has the
  attribute \<^verbatim>\<open>fp4\<close>, that one \<^verbatim>\<open>fp2\<close>, and that one \<^verbatim>\<open>fp\<close>. Each object carries the table
  of its own operations.
\<close>

record PrimeField2 =
  fp2_ops :: PrimeFieldBase
  fp2_fp :: PrimeFieldBase

record PrimeField4 =
  fp4_ops :: PrimeFieldBase
  fp4_fp2 :: PrimeField2

record PrimeField12 =
  fp12_ops :: PrimeFieldBase
  fp12_fp4 :: PrimeField4

record BNBIDH =
  bn_t :: int
  bn_p :: int
  bn_n :: int
  bn_fpk :: PrimeFieldBase
  bn_fp2 :: PrimeFieldBase
  bn_fp1 :: PrimeFieldBase
  bn_ec2 :: EllipticCurve
  bn_G1 :: EcPoint
  bn_G2 :: EcPoint
  bn_a :: int
  bn_neg2 :: pyval
  bn_inv_neg2 :: pyval

text \<open>
  \<^verbatim>\<open>BNBIDH.__init__\<close>. The first argument is the class \<^verbatim>\<open>Fp.PrimeField12\<close>, which builds the
  field objects for a modulus.
\<close>

definition BNBIDH_init ::
  "(int \<Rightarrow> PrimeField12) \<Rightarrow> int \<Rightarrow> int \<Rightarrow> pyval \<Rightarrow> EcPoint \<Rightarrow> EcPoint \<Rightarrow> error + BNBIDH" where
  "BNBIDH_init mk12 t b beta G1 G2 =
     (if beta \<noteq> PyTuple [PyInt 1, PyInt 0] then Inl (NotImplementedError beta)
      else
        (let p = 36 * t ^ 4 + 36 * t ^ 3 + 24 * t ^ 2 + 6 * t + 1;
             n = 36 * t ^ 4 + 36 * t ^ 3 + 18 * t ^ 2 + 6 * t + 1;
             fpk = mk12 p;
             fp2 = fp4_fp2 (fp12_fp4 fpk);
             fp1 = fp2_fp fp2;
             ec2 = EllipticCurve_init (fp2_ops fp2) (f_zero (fp2_ops fp2))
                     (f_mul (fp2_ops fp2) beta (f_extend (fp2_ops fp2) (PyInt b)));
             neg2 = f_neg fp1 (PyInt 2)
         in Inr \<lparr>bn_t = t, bn_p = p, bn_n = n, bn_fpk = fp12_ops fpk, bn_fp2 = fp2_ops fp2,
                  bn_fp1 = fp1, bn_ec2 = ec2, bn_G1 = G1, bn_G2 = G2, bn_a = 6 * t + 2,
                  bn_neg2 = neg2, bn_inv_neg2 = f_inv fp1 neg2\<rparr>))"

text \<open>
  The methods below read one or two attributes of \<^verbatim>\<open>self\<close>; these are their first
  arguments (\<^verbatim>\<open>self.fpk\<close> for \<^verbatim>\<open>_g_fn\<close>, \<^verbatim>\<open>self.fp1\<close> and the constant for \<^verbatim>\<open>_phi\<close> and
  \<^verbatim>\<open>_phi_inv\<close>, \<^verbatim>\<open>self.fpk\<close> and \<^verbatim>\<open>self.t\<close> for \<^verbatim>\<open>_finalexp\<close>).
\<close>

text \<open>The last two lines of \<^verbatim>\<open>_g_fn\<close>, reached from the tangent and the chord branch.\<close>

definition g_from_slope :: "PrimeFieldBase \<Rightarrow> pyval \<Rightarrow> pyval \<Rightarrow> pyval \<Rightarrow> pyval \<Rightarrow> pyval \<Rightarrow> pyval" where
  "g_from_slope fpk lam xQ yQ xV yV =
     f_sub fpk (f_mul fpk lam (f_sub fpk xQ xV)) (f_sub fpk yQ yV)"

text \<open>
  \<^verbatim>\<open>_g_fn\<close>. The branch of opposite ordinates ends in
  \<^verbatim>\<open>return fpk.sub(xQ, xV), fpk.one()\<close>, which returns a tuple of two values.
\<close>

definition g_fn :: "PrimeFieldBase \<Rightarrow> EcPoint \<Rightarrow> EcPoint \<Rightarrow> EcPoint \<Rightarrow> error + pyval" where
  "g_fn fpk U V Q =
     (if U = EC_INF \<or> V = EC_INF \<or> Q = EC_INF then Inr (f_one fpk)
      else
        (case U of (xU, yU) \<Rightarrow>
         case V of (xV, yV) \<Rightarrow>
         case Q of (xQ, yQ) \<Rightarrow>
           if xU = xV then
             (if f_isoppo fpk yU yV then Inr (PyTuple [f_sub fpk xQ xV, f_one fpk])
              else if yU = yV then
                (let lam = f_mul fpk (f_smul fpk 3 (f_mul fpk xV xV)) (f_inv fpk (f_smul fpk 2 yV))
                 in Inr (g_from_slope fpk lam xQ yQ xV yV))
              else Inl UnknownError)
           else
             (let lam = f_mul fpk (f_sub fpk yU yV) (f_inv fpk (f_sub fpk xU xV))
              in Inr (g_from_slope fpk lam xQ yQ xV yV))))"

definition fp2_zero :: pyval where
  "fp2_zero = PyTuple [PyInt 0, PyInt 0]"

definition fp4_zero :: pyval where
  "fp4_zero = PyTuple [fp2_zero, fp2_zero]"

text \<open>\<^verbatim>\<open>_phi\<close>: the subscripts are evaluated in the order of the two tuple displays.\<close>

definition phi :: "PrimeFieldBase \<Rightarrow> pyval \<Rightarrow> EcPoint \<Rightarrow> error + EcPoint" where
  "phi fp1 i2 P =
     (case P of (x', y') \<Rightarrow>
      case py_index x' 1 of Inl err \<Rightarrow> Inl err | Inr x1 \<Rightarrow>
      case py_index x' 0 of Inl err \<Rightarrow> Inl err | Inr x0 \<Rightarrow>
      case py_index y' 1 of Inl err \<Rightarrow> Inl err | Inr y1 \<Rightarrow>
      case py_index y' 0 of Inl err \<Rightarrow> Inl err | Inr y0 \<Rightarrow>
        Inr (PyTuple [fp4_zero, PyTuple [PyTuple [f_mul fp1 x1 i2, x0], fp2_zero], fp4_zero],
             PyTuple [fp4_zero, fp4_zero, PyTuple [PyTuple [f_mul fp1 y1 i2, y0], fp2_zero]]))"

text \<open>\<^verbatim>\<open>v[i][j][k]\<close>\<close>

definition py_index3 :: "pyval \<Rightarrow> nat \<Rightarrow> nat \<Rightarrow> nat \<Rightarrow> error + pyval" where
  "py_index3 v i j k =
     (case py_index v i of Inl err \<Rightarrow> Inl err | Inr a \<Rightarrow>
      case py_index a j of Inl err \<Rightarrow> Inl err | Inr b \<Rightarrow> py_index b k)"

definition phi_inv :: "PrimeFieldBase \<Rightarrow> pyval \<Rightarrow> EcPoint \<Rightarrow> error + EcPoint" where
  "phi_inv fp1 n2 P =
     (case P of (x', y') \<Rightarrow>
      case py_index3 x' 1 0 1 of Inl err \<Rightarrow> Inl err | Inr x0 \<Rightarrow>
      case py_index3 x' 1 0 0 of Inl err \<Rightarrow> Inl err | Inr x1 \<Rightarrow>
      case py_index3 y' 2 0 1 of Inl err \<Rightarrow> Inl err | Inr y0 \<Rightarrow>
      case py_index3 y' 2 0 0 of Inl err \<Rightarrow> Inl err | Inr y1 \<Rightarrow>
        Inr (PyTuple [x0, f_mul fp1 x1 n2], PyTuple [y0, f_mul fp1 y1 n2]))"

definition finalexp :: "PrimeFieldBase \<Rightarrow> int \<Rightarrow> pyval \<Rightarrow> pyval" where
  "finalexp fpk t f0 =
     (let M = f_mul fpk; I = f_inv fpk; P = f_pow fpk; F = f_frob fpk;
          f1 = M (F (F (F (F (F (F f0)))))) (I f0);
          f = M (F (F f1)) f1;
          f_t = P f t;
          f_t2 = P f_t t;
          f_t3 = P f_t2 t;
          f_p = F f;
          f_p2 = F f_p;
          f_p3 = F f_p2;
          f_t_p = F f_t;
          f_t2_p = F f_t2;
          f_t3_p = F f_t3;
          f_t2_p2 = F f_t2_p;
          y6 = P (M f_t3 f_t3_p) 36;
          y5 = P f_t2 30;
          y4 = P (M f_t2_p f_t) 18;
          y3 = P f_t_p 12;
          y2 = P f_t2_p2 6;
          y1 = M f f;
          y0 = M f_p (M f_p2 f_p3);
          f_num = M y2 y0;
          f_den = M y6 (M y5 (M y4 (M y3 y1)))
      in M f_num (I f_den))"

text \<open>
  The loop of \<^verbatim>\<open>e\<close> over the characters of \<^verbatim>\<open>f"{self._a:b}"[1:]\<close> that are left, on the
  state \<open>(T, f)\<close>; \<open>uP\<close> and \<open>uQ\<close> are the locals \<^verbatim>\<open>_P\<close> and \<^verbatim>\<open>_Q\<close>.
\<close>

fun miller_loop ::
  "BNBIDH \<Rightarrow> EcPoint \<Rightarrow> EcPoint \<Rightarrow> EcPoint \<Rightarrow> EcPoint \<Rightarrow> pyval \<Rightarrow> string \<Rightarrow> error + (EcPoint \<times> pyval)" where
  "miller_loop B uP uQ Q T f [] = Inr (T, f)"
| "miller_loop B uP uQ Q T f (i # rest) =
     (case phi (bn_fp1 B) (bn_inv_neg2 B) T of Inl err \<Rightarrow> Inl err | Inr uT \<Rightarrow>
      case g_fn (bn_fpk B) uT uT uP of Inl err \<Rightarrow> Inl err | Inr g \<Rightarrow>
        (let f2 = f_mul (bn_fpk B) (f_mul (bn_fpk B) f f) g in
         case ec_add (bn_ec2 B) T T of Inl err \<Rightarrow> Inl err | Inr T2 \<Rightarrow>
           if i = CHR ''1'' then
             (case phi (bn_fp1 B) (bn_inv_neg2 B) T2 of Inl err \<Rightarrow> Inl err | Inr uT2 \<Rightarrow>
              case g_fn (bn_fpk B) uT2 uQ uP of Inl err \<Rightarrow> Inl err | Inr g2 \<Rightarrow>
              case ec_add (bn_ec2 B) T2 Q of Inl err \<Rightarrow> Inl err | Inr T3 \<Rightarrow>
                miller_loop B uP uQ Q T3 (f_mul (bn_fpk B) f2 g2) rest)
           else miller_loop B uP uQ Q T2 f2 rest))"

definition e :: "BNBIDH \<Rightarrow> EcPoint \<Rightarrow> EcPoint \<Rightarrow> error + pyval" where
  "e B P Q =
     (let fpk = bn_fpk B;
          uP = (f_extend fpk (fst P), f_extend fpk (snd P))
      in
      case phi (bn_fp1 B) (bn_inv_neg2 B) Q of Inl err \<Rightarrow> Inl err | Inr uQ \<Rightarrow>
      case miller_loop B uP uQ Q Q (f_one fpk) (drop 1 (format_b (bn_a B))) of
        Inl err \<Rightarrow> Inl err
      | Inr (T, f) \<Rightarrow>
        (let uQ1 = (f_frob fpk (fst uQ), f_frob fpk (snd uQ));
             uQ2 = (f_frob fpk (fst uQ1), f_neg fpk (f_frob fpk (snd uQ1)))
         in
         case phi (bn_fp1 B) (bn_inv_neg2 B) T of Inl err \<Rightarrow> Inl err | Inr uT \<Rightarrow>
         case g_fn fpk uT uQ1 uP of Inl err \<Rightarrow> Inl err | Inr g \<Rightarrow>
         case phi_inv (bn_fp1 B) (bn_neg2 B) uQ1 of Inl err \<Rightarrow> Inl err | Inr Q1 \<Rightarrow>
         case ec_add (bn_ec2 B) T Q1 of Inl err \<Rightarrow> Inl err | Inr T2 \<Rightarrow>
         case phi (bn_fp1 B) (bn_inv_neg2 B) T2 of Inl err \<Rightarrow> Inl err | Inr uT2 \<Rightarrow>
         case g_fn fpk uT2 uQ2 uP of Inl err \<Rightarrow> Inl err | Inr g2 \<Rightarrow>
           Inr (finalexp fpk (bn_t B) (f_mul fpk (f_mul fpk f g) g2))))"

section \<open>Reference definitions and operation tables\<close>

text \<open>
  The final exponentiation as the specification words it: the easy part
  \<open>f \<leftarrow> Frob\<^sup>6(f) / f\<close>, then \<open>f \<leftarrow> Frob\<^sup>2(f) \<cdot> f\<close>; the hard part forms seven terms
  \<open>y0 .. y6\<close>, each a fixed power of a product of \<open>f\<close>, \<open>f\<^sup>t\<close>, \<open>f\<^sup>t\<^sup>2\<close>, \<open>f\<^sup>t\<^sup>3\<close>
  and their Frobenius images, and combines them as \<open>(y2 \<cdot> y0) / (y6 \<cdot> y5 \<cdot> y4 \<cdot> y3 \<cdot> y1)\<close>.
  The list \<open>exps\<close> gives the seven powers in the order \<open>y0, y1, .., y6\<close>; a power 1 is the
  product itself. The products are those of the code, each under the name the code gives
  its term.
\<close>

definition frob_n :: "PrimeFieldBase \<Rightarrow> nat \<Rightarrow> pyval \<Rightarrow> pyval" where
  "frob_n fpk k x = (f_frob fpk ^^ k) x"

definition pow_t :: "PrimeFieldBase \<Rightarrow> int \<Rightarrow> nat \<Rightarrow> pyval \<Rightarrow> pyval" where
  "pow_t fpk t k x = ((\<lambda>v. f_pow fpk v t) ^^ k) x"

definition fixed_power :: "PrimeFieldBase \<Rightarrow> pyval \<Rightarrow> int \<Rightarrow> pyval" where
  "fixed_power fpk x k = (if k = 1 then x else f_pow fpk x k)"

definition easy_part :: "PrimeFieldBase \<Rightarrow> pyval \<Rightarrow> pyval" where
  "easy_part fpk f =
     (let f1 = f_mul fpk (frob_n fpk 6 f) (f_inv fpk f)
      in f_mul fpk (frob_n fpk 2 f1) f1)"

definition hard_products :: "PrimeFieldBase \<Rightarrow> int \<Rightarrow> pyval \<Rightarrow> pyval list" where
  "hard_products fpk t f =
     [f_mul fpk (frob_n fpk 1 f) (f_mul fpk (frob_n fpk 2 f) (frob_n fpk 3 f)),
      f_mul fpk f f,
      frob_n fpk 2 (pow_t fpk t 2 f),
      frob_n fpk 1 (pow_t fpk t 1 f),
      f_mul fpk (frob_n fpk 1 (pow_t fpk t 2 f)) (pow_t fpk t 1 f),
      pow_t fpk t 2 f,
      f_mul fpk (pow_t fpk t 3 f) (frob_n fpk 1 (pow_t fpk t 3 f))]"

definition hard_part :: "PrimeFieldBase \<Rightarrow> int \<Rightarrow> int list \<Rightarrow> pyval \<Rightarrow> pyval" where
  "hard_part fpk t exps f =
     (let y = map2 (fixed_power fpk) (hard_products fpk t f) exps;
          M = f_mul fpk
      in M (M (y ! 2) (y ! 0))
           (f_inv fpk (M (y ! 6) (M (y ! 5) (M (y ! 4) (M (y ! 3) (y ! 1)))))))"

definition finalexp_spec :: "PrimeFieldBase \<Rightarrow> int \<Rightarrow> int list \<Rightarrow> pyval \<Rightarrow> pyval" where
  "finalexp_spec fpk t exps f = hard_part fpk t exps (easy_part fpk f)"

text \<open>
  Modelled from the spec: the operations of the base field \<^verbatim>\<open>PrimeField(p)\<close>, which
  the module \<^verbatim>\<open>primefield\<close> defines. Section 6 of the
  specification gives their contracts: the ring operations modulo \<open>p\<close>, \<open>smul\<close> as
  repeated addition, \<open>inv\<close> the multiplicative inverse, \<open>pow\<close> for a non-negative exponent,
  \<open>is_opposite(x, y)\<close> true iff \<open>x = -y\<close>, and the Frobenius map \<open>x \<mapsto> x\<^sup>p\<close>. They are
  used to instantiate the general statements at concrete values. The contracts say
  nothing about an argument that is not an integer, and the table leaves its value
  there unspecified.
\<close>

definition int_op1 :: "(int \<Rightarrow> int) \<Rightarrow> pyval \<Rightarrow> pyval" where
  "int_op1 g u = (case u of PyInt x \<Rightarrow> PyInt (g x))"

definition int_op2 :: "(int \<Rightarrow> int \<Rightarrow> int) \<Rightarrow> pyval \<Rightarrow> pyval \<Rightarrow> pyval" where
  "int_op2 g u v = (case u of PyInt x \<Rightarrow> (case v of PyInt y \<Rightarrow> PyInt (g x y)))"

definition PrimeField :: "int \<Rightarrow> PrimeFieldBase" where
  "PrimeField p =
     \<lparr>f_zero = PyInt 0,
      f_one = PyInt 1,
      f_extend = (\<lambda>u. u),
      f_isoppo = (\<lambda>u v. u = int_op1 (\<lambda>y. (- y) mod p) v),
      f_neg = int_op1 (\<lambda>x. (- x) mod p),
      f_add = int_op2 (\<lambda>x y. (x + y) mod p),
      f_sub = int_op2 (\<lambda>x y. (x - y) mod p),
      f_mul = int_op2 (\<lambda>x y. (x * y) mod p),
      f_smul = (\<lambda>k. int_op1 (\<lambda>x. (k * x) mod p)),
      f_inv = int_op1 (\<lambda>x. x ^ nat (p - 2) mod p),
      f_pow = (\<lambda>u k. int_op1 (\<lambda>x. x ^ nat k mod p) u),
      f_frob = int_op1 (\<lambda>x. x ^ nat p mod p)\<rparr>"

text \<open>
  Modelled from the spec: the multiplicative operations of the degree-12 field
  \<^verbatim>\<open>PrimeField12(p)\<close> (section 6: \<open>mul\<close>, \<open>inv\<close>, \<open>pow\<close>, and the Frobenius map
  \<open>x \<mapsto> x\<^sup>p\<close>) on its non-zero elements. These form a cyclic group of order \<open>p\<^sup>1\<^sup>2 - 1\<close>; an
  element \<open>g\<^sup>k\<close> of it, for a fixed generator \<open>g\<close>, is represented by its exponent \<open>k\<close>
  modulo \<open>p\<^sup>1\<^sup>2 - 1\<close>. Multiplication adds exponents, inversion negates them, \<open>pow\<close>
  multiplies them by the power, Frobenius multiplies them by \<open>p\<close>, and \<open>one\<close> is
  \<open>g\<^sup>0\<close>. The additive operations have no such representation: \<^verbatim>\<open>_finalexp\<close> calls
  none of them, and the table leaves them unspecified.
\<close>

definition Fp12_units :: "int \<Rightarrow> PrimeFieldBase" where
  "Fp12_units p =
     (let N = p ^ 12 - 1 in
      \<lparr>f_zero = undefined,
       f_one = PyInt 0,
       f_extend = undefined,
       f_isoppo = undefined,
       f_neg = undefined,
       f_add = undefined,
       f_sub = undefined,
       f_mul = int_op2 (\<lambda>x y. (x + y) mod N),
       f_smul = undefined,
       f_inv = int_op1 (\<lambda>x. (- x) mod N),
       f_pow = (\<lambda>u k. int_op1 (\<lambda>x. (x * k) mod N) u),
       f_frob = int_op1 (\<lambda>x. (p * x) mod N)\<rparr>)"

text \<open>
  Two instances used to evaluate the general statements at concrete values: the table of
  the field of 7 elements, and the curve \<open>y\<^sup>2 = x\<^sup>3 + 3\<close> over it.
\<close>

definition F7 :: PrimeFieldBase where
  "F7 = PrimeField 7"

definition E7 :: EllipticCurve where
  "E7 = EllipticCurve_init (PrimeField 7) (PyInt 0) (PyInt 3)"

section \<open>Auxiliary facts\<close>

lemma format_b_0: "format_b 0 = ''0''"
  by (simp add: format_b_def bin_digits.simps)

lemma format_b_1: "format_b 1 = ''1''"
  by (simp add: format_b_def bin_digits.simps)

text \<open>A tuple is never one of its own components.\<close>

lemma pytuple_neq_head: "PyTuple (v # xs) \<noteq> v"
proof
  assume "PyTuple (v # xs) = v"
  then have "size (PyTuple (v # xs)) = size v" by simp
  then show False by simp
qed

lemmas table_defs = PrimeField_def int_op1_def int_op2_def

lemma units_ops:
  "f_mul (Fp12_units p) (PyInt x) (PyInt y) = PyInt ((x + y) mod (p ^ 12 - 1))"
  "f_inv (Fp12_units p) (PyInt x) = PyInt ((- x) mod (p ^ 12 - 1))"
  "f_pow (Fp12_units p) (PyInt x) k = PyInt ((x * k) mod (p ^ 12 - 1))"
  "f_frob (Fp12_units p) (PyInt x) = PyInt ((p * x) mod (p ^ 12 - 1))"
  by (simp_all add: Fp12_units_def int_op1_def int_op2_def Let_def)

lemma frob_n_unfold:
  "frob_n fpk (Suc 0) x = f_frob fpk x"
  "frob_n fpk 2 x = f_frob fpk (f_frob fpk x)"
  "frob_n fpk 3 x = f_frob fpk (f_frob fpk (f_frob fpk x))"
  "frob_n fpk 6 x = f_frob fpk (f_frob fpk (f_frob fpk (f_frob fpk (f_frob fpk (f_frob fpk x)))))"
  by (simp_all add: frob_n_def numeral_eq_Suc)

lemma pow_t_unfold:
  "pow_t fpk t (Suc 0) x = f_pow fpk x t"
  "pow_t fpk t 2 x = f_pow fpk (f_pow fpk x t) t"
  "pow_t fpk t 3 x = f_pow fpk (f_pow fpk (f_pow fpk x t) t) t"
  by (simp_all add: pow_t_def numeral_eq_Suc)

text \<open>
  The constructor stores \<open>neg(2)\<close> and \<open>inv(neg(2))\<close> of the base field: these are the two
  constants \<^verbatim>\<open>_phi\<close> and \<^verbatim>\<open>_phi_inv\<close> multiply by.
\<close>

lemma BNBIDH_init_consts:
  assumes "BNBIDH_init mk12 t b beta G1 G2 = Inr B"
  shows "bn_neg2 B = f_neg (bn_fp1 B) (PyInt 2) \<and> bn_inv_neg2 B = f_inv (bn_fp1 B) (bn_neg2 B)"
  using assms by (auto simp: BNBIDH_init_def Let_def split: if_splits)

text \<open>
  On the exponents of a generator, for \<open>t = 1\<close> (\<open>p = 103\<close>, \<open>n = 97\<close>), the code's final
  exponentiation is the power \<open>(p\<^sup>1\<^sup>2 - 1) / n\<close>.
\<close>

lemma finalexp_units_103:
  "finalexp (Fp12_units 103) 1 (PyInt 1) = PyInt ((103 ^ 12 - 1) div 97)"
  by (simp add: finalexp_def units_ops Let_def cong: let_weak_cong)

lemma easy_units_103:
  "easy_part (Fp12_units 103) (PyInt 1) = PyInt 12668894866162080"
  by (simp add: easy_part_def frob_n_unfold units_ops Let_def cong: let_weak_cong)

section \<open>EllipticCurve: the claims\<close>

text \<open>
  C5: \<^verbatim>\<open>isvalid(P)\<close> is stated to be true iff \<open>P\<close> is the point at infinity or
  \<open>y \<cdot> y = x\<^sup>3 + a \<cdot> x + b\<close>. The code has the second disjunct only: it unpacks \<open>P\<close> and
  compares \<open>mul(y, y)\<close> with \<^verbatim>\<open>get_y_sqr(x)\<close>, for every pair. For \<^verbatim>\<open>INF\<close> the answer is the
  outcome of that comparison on the two floats, not the constant true; \<^verbatim>\<open>add\<close> and
  \<^verbatim>\<open>_g_fn\<close> test for \<^verbatim>\<open>INF\<close> before they unpack, \<^verbatim>\<open>isvalid\<close> does not.
\<close>

theorem isvalid_no_INF_case:
  "isvalid ec (x, y) = (f_mul (ec_fp ec) y y = get_y_sqr ec x) \<and>
   isvalid ec EC_INF = (f_mul (ec_fp ec) PyInf PyInf = get_y_sqr ec PyInf)"
  by (simp add: isvalid_def EC_INF_def)

text \<open>
  C6: \<^verbatim>\<open>neg\<close> is stated to map the point at infinity to itself and \<open>(x, y)\<close> to \<open>(x, -y)\<close>.
  The code does the second for every pair, \<^verbatim>\<open>INF\<close> included: \<^verbatim>\<open>neg(INF)\<close> is
  \<open>(inf, neg(inf))\<close>, which is \<^verbatim>\<open>INF\<close> only if the field's \<open>neg\<close> returns the float
  infinity unchanged.
\<close>

theorem ec_neg_no_INF_case:
  "ec_neg ec (x, y) = (x, f_neg (ec_fp ec) y) \<and>
   ec_neg ec EC_INF = (PyInf, f_neg (ec_fp ec) PyInf) \<and>
   (ec_neg ec EC_INF = EC_INF) = (f_neg (ec_fp ec) PyInf = PyInf)"
  by (simp add: ec_neg_def EC_INF_def)

text \<open>
  C7: \<^verbatim>\<open>add\<close> raises exactly when both operands are not the point at infinity, their
  abscissas are equal, and their ordinates are neither equal nor opposite (as the
  field's \<open>isoppo\<close> decides); in every other case it returns a point. The error reaches
  the caller: \<^verbatim>\<open>sub\<close> returns it when its call of \<^verbatim>\<open>add\<close> raises, and so does the loop of
  \<^verbatim>\<open>mul\<close> when the addition of \<open>P\<close> raises.
\<close>

theorem ec_add_raises:
  "(ec_add ec P1 P2 = Inl UnknownError) =
     (P1 \<noteq> EC_INF \<and> P2 \<noteq> EC_INF \<and> fst P1 = fst P2 \<and> snd P1 \<noteq> snd P2 \<and>
      \<not> f_isoppo (ec_fp ec) (snd P1) (snd P2)) \<and>
   (\<exists>R. ec_add ec P1 P2 = Inr R) =
     (\<not> (P1 \<noteq> EC_INF \<and> P2 \<noteq> EC_INF \<and> fst P1 = fst P2 \<and> snd P1 \<noteq> snd P2 \<and>
      \<not> f_isoppo (ec_fp ec) (snd P1) (snd P2))) \<and>
   (ec_add ec P1 (ec_neg ec P3) = Inl err \<longrightarrow> ec_sub ec P1 P3 = Inl err) \<and>
   (ec_add ec Q Q = Inr Q2 \<and> ec_add ec Q2 P = Inl err \<longrightarrow>
      mul_loop ec P Q (CHR ''1'' # rest) = Inl err)"
  by (auto simp: ec_add_def ec_sub_def Let_def split: prod.splits)

theorem ec_add_raises_witness:
  "ec_add E7 (PyInt 2, PyInt 1) (ec_neg E7 (PyInt 2, PyInt 4)) = Inl UnknownError \<and>
   ec_sub E7 (PyInt 2, PyInt 1) (PyInt 2, PyInt 4) = Inl UnknownError \<and>
   ec_add E7 (PyInt 1, PyInt 1) (PyInt 1, PyInt 1) = Inr (PyInt 2, PyInt 1) \<and>
   ec_add E7 (PyInt 2, PyInt 1) (PyInt 2, PyInt 3) = Inl UnknownError \<and>
   mul_loop E7 (PyInt 2, PyInt 3) (PyInt 1, PyInt 1) ''1'' = Inl UnknownError"
proof -
  have neg: "ec_neg E7 (PyInt 2, PyInt 4) = (PyInt 2, PyInt 3)"
    by (simp add: ec_neg_def E7_def EllipticCurve_init_def table_defs)
  have raise: "ec_add E7 (PyInt 2, PyInt 1) (PyInt 2, PyInt 3) = Inl UnknownError"
    by (simp add: ec_add_def EC_INF_def E7_def EllipticCurve_init_def table_defs)
  have dbl: "ec_add E7 (PyInt 1, PyInt 1) (PyInt 1, PyInt 1) = Inr (PyInt 2, PyInt 1)"
    by (simp add: ec_add_def add_from_slope_def EC_INF_def E7_def EllipticCurve_init_def
        table_defs)
  note inst = ec_add_raises [where ec = E7 and ?P1.0 = "(PyInt 2, PyInt 1)"
      and ?P2.0 = "(PyInt 2, PyInt 3)" and ?P3.0 = "(PyInt 2, PyInt 4)"
      and err = UnknownError and Q = "(PyInt 1, PyInt 1)" and ?Q2.0 = "(PyInt 2, PyInt 1)"
      and P = "(PyInt 2, PyInt 3)" and rest = "[]"]
  from inst neg raise
  have s: "ec_sub E7 (PyInt 2, PyInt 1) (PyInt 2, PyInt 4) = Inl UnknownError"
    by metis
  from inst raise dbl
  have m: "mul_loop E7 (PyInt 2, PyInt 3) (PyInt 1, PyInt 1) ''1'' = Inl UnknownError"
    by metis
  from neg raise dbl s m show ?thesis by metis
qed

text \<open>
  C8: whenever one operand of \<^verbatim>\<open>add\<close> is the point at infinity, the other operand is
  returned unchanged: \<open>add(P, INF) = P\<close> and \<open>add(INF, P) = P\<close> for every \<open>P\<close>.
\<close>

theorem ec_add_INF: "ec_add ec P EC_INF = Inr P \<and> ec_add ec EC_INF P = Inr P"
  by (simp add: ec_add_def Let_def)

text \<open>
  C10: \<^verbatim>\<open>mul\<close> with the scalar 0 returns \<open>P\<close> itself: the digits of 0 are the one
  character "0", the slice drops it, and the loop body never runs. For a point other than
  the point at infinity the result is therefore not the point at infinity.
\<close>

theorem ec_mul_0: "ec_mul ec 0 P = Inr P \<and> (ec_mul ec 0 P = Inr EC_INF) = (P = EC_INF)"
  by (simp add: ec_mul_def format_b_0)

section \<open>BNBIDH: the claims\<close>

text \<open>
  C9: the constructor raises \<^verbatim>\<open>NotImplementedError\<close>, and builds no object, exactly when
  \<open>beta\<close> differs from \<open>(1, 0)\<close>; with \<open>beta = (1, 0)\<close> it returns the object.
\<close>

theorem BNBIDH_init_beta:
  "(BNBIDH_init mk12 t b beta G1 G2 = Inl (NotImplementedError beta)) =
     (beta \<noteq> PyTuple [PyInt 1, PyInt 0]) \<and>
   (\<exists>B. BNBIDH_init mk12 t b beta G1 G2 = Inr B) = (beta = PyTuple [PyInt 1, PyInt 0])"
  by (simp add: BNBIDH_init_def Let_def)

text \<open>
  C3: \<^verbatim>\<open>_phi_inv\<close> is a left inverse of \<^verbatim>\<open>_phi\<close> on the affine points with coordinates in
  \<open>Fp2\<close>, that is pairs \<open>((x0, x1), (y0, y1))\<close>, whenever multiplying by the first constant
  and then by the second gives back the second component of each coordinate:
  \<open>mul(mul(v, i2), n2) = v\<close> for \<open>v = x1\<close> and \<open>v = y1\<close>, where the constructor sets
  \<open>n2 = neg(2)\<close> and \<open>i2 = inv(neg(2))\<close>.
\<close>

theorem phi_inv_phi:
  assumes "f_mul fp1 (f_mul fp1 x1 i2) n2 = x1"
    and "f_mul fp1 (f_mul fp1 y1 i2) n2 = y1"
  shows "(case phi fp1 i2 (PyTuple [x0, x1], PyTuple [y0, y1]) of
            Inl err \<Rightarrow> Inl err
          | Inr R \<Rightarrow> phi_inv fp1 n2 R) = Inr (PyTuple [x0, x1], PyTuple [y0, y1])"
  using assms by (simp add: phi_def phi_inv_def py_index3_def)

theorem phi_inv_phi_witness:
  "f_mul F7 (f_mul F7 (PyInt 6) (f_inv F7 (f_neg F7 (PyInt 2)))) (f_neg F7 (PyInt 2)) = PyInt 6 \<and>
   f_mul F7 (f_mul F7 (PyInt 5) (f_inv F7 (f_neg F7 (PyInt 2)))) (f_neg F7 (PyInt 2)) = PyInt 5 \<and>
   (case phi F7 (f_inv F7 (f_neg F7 (PyInt 2)))
           (PyTuple [PyInt 4, PyInt 6], PyTuple [PyInt 2, PyInt 5]) of
      Inl err \<Rightarrow> Inl err
    | Inr R \<Rightarrow> phi_inv F7 (f_neg F7 (PyInt 2)) R) =
   Inr (PyTuple [PyInt 4, PyInt 6], PyTuple [PyInt 2, PyInt 5])"
proof -
  have hx: "f_mul F7 (f_mul F7 (PyInt 6) (f_inv F7 (f_neg F7 (PyInt 2)))) (f_neg F7 (PyInt 2)) =
      PyInt 6"
    by (simp add: F7_def table_defs)
  have hy: "f_mul F7 (f_mul F7 (PyInt 5) (f_inv F7 (f_neg F7 (PyInt 2)))) (f_neg F7 (PyInt 2)) =
      PyInt 5"
    by (simp add: F7_def table_defs)
  show ?thesis
    using phi_inv_phi [OF hx hy, of "PyInt 4" "PyInt 2"] hx hy by simp
qed

text \<open>
  C2: in the vertical-line case (\<open>U\<close>, \<open>V\<close> with equal abscissas and opposite ordinates,
  none of the three points the point at infinity) \<^verbatim>\<open>_g_fn\<close> is stated to return the single
  field element \<open>xS - xV\<close>. The code returns the tuple \<open>(xS - xV, one)\<close> instead, which
  is a different value: the other branches return one field element.
\<close>

theorem g_fn_opposite:
  assumes "U \<noteq> EC_INF" and "V \<noteq> EC_INF" and "Q \<noteq> EC_INF"
    and "fst U = fst V" and "f_isoppo fpk (snd U) (snd V)"
  shows "g_fn fpk U V Q = Inr (PyTuple [f_sub fpk (fst Q) (fst V), f_one fpk]) \<and>
         g_fn fpk U V Q \<noteq> Inr (f_sub fpk (fst Q) (fst V))"
  using assms by (cases U; cases V; cases Q) (simp add: g_fn_def pytuple_neq_head)

theorem g_fn_opposite_witness:
  "(PyInt 1, PyInt 2) \<noteq> EC_INF \<and> (PyInt 1, PyInt 5) \<noteq> EC_INF \<and> (PyInt 3, PyInt 4) \<noteq> EC_INF \<and>
   f_isoppo F7 (PyInt 2) (PyInt 5) \<and>
   g_fn F7 (PyInt 1, PyInt 2) (PyInt 1, PyInt 5) (PyInt 3, PyInt 4) =
     Inr (PyTuple [PyInt 2, PyInt 1]) \<and>
   g_fn F7 (PyInt 1, PyInt 2) (PyInt 1, PyInt 5) (PyInt 3, PyInt 4) \<noteq> Inr (PyInt 2)"
proof -
  have h1: "(PyInt 1, PyInt 2) \<noteq> EC_INF" and h2: "(PyInt 1, PyInt 5) \<noteq> EC_INF"
    and h3: "(PyInt 3, PyInt 4) \<noteq> EC_INF"
    by (simp_all add: EC_INF_def)
  have h4: "fst (PyInt 1, PyInt 2) = fst (PyInt 1, PyInt 5)" by simp
  have h5: "f_isoppo F7 (snd (PyInt 1, PyInt 2)) (snd (PyInt 1, PyInt 5))"
    by (simp add: F7_def table_defs)
  have sub: "f_sub F7 (PyInt 3) (PyInt 1) = PyInt 2" and one: "f_one F7 = PyInt 1"
    by (simp_all add: F7_def table_defs)
  show ?thesis
    using g_fn_opposite [OF h1 h2 h3 h4 h5] h1 h2 h3 h5 sub one by simp
qed

text \<open>
  C4: \<^verbatim>\<open>_finalexp\<close> applies the easy part \<open>f \<leftarrow> Frob\<^sup>6(f) / f\<close>, then
  \<open>f \<leftarrow> Frob\<^sup>2(f) \<cdot> f\<close>, and the hard part combines seven terms as
  \<open>(y2 \<cdot> y0) / (y6 \<cdot> y5 \<cdot> y4 \<cdot> y3 \<cdot> y1)\<close>. The fixed powers 36, 30, 18, 12, 6, 1, 1 belong to
  \<open>y6, y5, y4, y3, y2, y1, y0\<close> in this order: \<open>y0\<close> and \<open>y1\<close> are plain products and
  \<open>y6\<close> is the 36th power. Read for \<open>y0, .., y6\<close> in this order, as the claim lists them,
  the powers give another function.
\<close>

theorem finalexp_structure:
  "finalexp fpk t f = finalexp_spec fpk t [1, 1, 6, 12, 18, 30, 36] f"
  by (simp add: finalexp_def finalexp_spec_def hard_part_def hard_products_def easy_part_def
      fixed_power_def frob_n_unfold pow_t_unfold Let_def)

theorem finalexp_literal_counterexample:
  "finalexp (Fp12_units 103) 1 (PyInt 1) \<noteq>
   finalexp_spec (Fp12_units 103) 1 [36, 30, 18, 12, 6, 1, 1] (PyInt 1)"
proof -
  have "finalexp_spec (Fp12_units 103) 1 [36, 30, 18, 12, 6, 1, 1] (PyInt 1) =
          PyInt 505650319549356763061280"
    by (simp add: finalexp_spec_def hard_part_def hard_products_def easy_units_103
        fixed_power_def frob_n_unfold pow_t_unfold units_ops Let_def cong: let_weak_cong)
  then show ?thesis by (simp add: finalexp_units_103)
qed

text \<open>
  C1: the pairing is stated to be bilinear for all non-negative \<open>a\<close> and \<open>b\<close>:
  \<open>e(mul(a, P), mul(b, Q)) = e(P, Q)\<^sup>a\<^sup>b\<close>. At \<open>a = 0\<close>, \<open>b = 1\<close> the code computes
  \<open>e(P, Q)\<close> itself, since \<^verbatim>\<open>mul\<close> returns \<open>P\<close> for the scalar 0, where the claim asks for
  \<open>e(P, Q)\<^sup>0\<close>, the unit of the target field; likewise at \<open>a = 1\<close>, \<open>b = 0\<close>. The first
  curve is the one the caller multiplies \<open>P\<close> on, the second the twisted curve of the
  instance.
\<close>

theorem e_scalar_0:
  "(case ec_mul ec1 0 P of
      Inl err \<Rightarrow> Inl err
    | Inr aP \<Rightarrow> (case ec_mul (bn_ec2 B) 1 Q of Inl err \<Rightarrow> Inl err | Inr bQ \<Rightarrow> e B aP bQ)) =
   e B P Q \<and>
   (case ec_mul ec1 1 P of
      Inl err \<Rightarrow> Inl err
    | Inr aP \<Rightarrow> (case ec_mul (bn_ec2 B) 0 Q of Inl err \<Rightarrow> Inl err | Inr bQ \<Rightarrow> e B aP bQ)) =
   e B P Q"
  by (simp add: ec_mul_def format_b_0 format_b_1)

end
